theory Spec2Isabelle
  imports Complex_Main
begin

section \<open>Antenna S-parameter script: data\<close>

text \<open>
  The script \<^verbatim>\<open>main.py\<close> loads Touchstone files through scikit-rf, plots the S11
  traces and prints an impedance-matching assessment at the sample closest to a target
  frequency. The embedding follows the script function by function.

  Numbers. A finite double is read as the real it denotes, so rounding is not part of
  the model. The two non-finite values the arithmetic of the script can produce from
  finite input are kept: \<^verbatim>\<open>np.log10(0.0)\<close> is \<^verbatim>\<open>-inf\<close> and the logarithm of a negative
  number is \<^verbatim>\<open>nan\<close>.
\<close>

datatype np_float = NaN | NegInf | Fin real

text \<open>
  The two parts of a complex sample keep the sign of a zero as well, since
  \<^verbatim>\<open>np.arctan2\<close> reads it: \<open>Val 0\<close> is \<^verbatim>\<open>0.0\<close> and \<open>NegZero\<close> is \<^verbatim>\<open>-0.0\<close>. A
  \<^verbatim>\<open>complex128\<close> is the pair of its real and its imaginary part.
\<close>

datatype dbl = NegZero | Val real

type_synonym complex128 = "dbl \<times> dbl"

text \<open>Exceptions of the script and of the library calls it makes.\<close>

datatype error = ValueError | IndexError | TypeError | ZeroDivisionError

text \<open>
  A two-port network as scikit-rf holds it: the frequency axis \<^verbatim>\<open>ntwk.f\<close> in Hz and
  the array \<^verbatim>\<open>ntwk.s\<close> of 2x2 scattering matrices, one per frequency (rows of pairs).
\<close>

type_synonym smatrix = "(complex128 \<times> complex128) \<times> (complex128 \<times> complex128)"

record network =
  ntwk_f :: "real list"
  ntwk_s :: "smatrix list"

datatype match_quality = Good | Moderate | Poor

text \<open>What one pass of the analysis loop prints for one antenna (lines 131-142).\<close>

record report =
  r_antenna :: nat
  r_freq :: real
  r_magnitude_db :: np_float
  r_phase_deg :: real
  r_matching :: match_quality

text \<open>One call of \<^verbatim>\<open>ax.plot(x, y, color=colors[i], label=f'Antenna {i+1}')\<close>.\<close>

record 'y curve =
  color_index :: nat
  antenna_label :: nat
  xdata :: "real list"
  ydata :: "'y list"

text \<open>The figure of \<^verbatim>\<open>plot_s_parameters_multi\<close>: the lines drawn on its two axes.\<close>

record s_param_figure =
  ax1 :: "np_float curve list"
  ax2 :: "real curve list"

text \<open>One \<^verbatim>\<open>plt.subplot(n_rows, n_cols, i + 1)\<close> holding the Smith chart of S11.\<close>

record smith_subplot =
  grid_rows :: nat
  grid_cols :: nat
  grid_pos :: nat
  title_no :: nat
  chart :: "complex128 list"

record smith_figure =
  height_rows :: nat
  subplots :: "smith_subplot list"

text \<open>A line printed by the loader: the file's name, and the exception text on failure.\<close>

datatype log_line = Loaded string | ErrorLoading string string

section \<open>Library calls\<close>

text \<open>\<^verbatim>\<open>ntwk.s11.s.flatten()\<close>: the (1,1) entry of every matrix, in frequency order.\<close>

definition s11_flatten :: "network \<Rightarrow> complex128 list" where
  "s11_flatten ntwk = map (\<lambda>m. fst (fst m)) (ntwk_s ntwk)"

text \<open>
  \<^verbatim>\<open>ndarray.argmin()\<close>: a left-to-right scan that keeps the first strict minimum; an
  empty array raises \<^verbatim>\<open>ValueError\<close>.
\<close>

fun argmin_scan :: "real \<Rightarrow> nat \<Rightarrow> nat \<Rightarrow> real list \<Rightarrow> nat" where
  "argmin_scan mp mi i [] = mi"
| "argmin_scan mp mi i (x # xs) =
     (if x < mp then argmin_scan x i (Suc i) xs else argmin_scan mp mi (Suc i) xs)"

definition np_argmin :: "real list \<Rightarrow> error + nat" where
  "np_argmin xs = (case xs of [] \<Rightarrow> Inl ValueError | x # rest \<Rightarrow> Inr (argmin_scan x 0 1 rest))"

text \<open>Indexing a one-dimensional array with a non-negative index.\<close>

definition np_index :: "'a list \<Rightarrow> nat \<Rightarrow> error + 'a" where
  "np_index xs i = (if i < length xs then Inr (xs ! i) else Inl IndexError)"

text \<open>
  The real a double denotes, the complex number a sample denotes, and \<^verbatim>\<open>np.abs\<close> of a
  sample, its modulus.
\<close>

fun val :: "dbl \<Rightarrow> real" where
  "val NegZero = 0"
| "val (Val x) = x"

definition to_complex :: "complex128 \<Rightarrow> complex" where
  "to_complex z = Complex (val (fst z)) (val (snd z))"

definition np_abs :: "complex128 \<Rightarrow> real" where
  "np_abs z = cmod (to_complex z)"

text \<open>\<^verbatim>\<open>np.log10\<close> on a double, and the product \<^verbatim>\<open>20 * x\<close>.\<close>

definition np_log10 :: "real \<Rightarrow> np_float" where
  "np_log10 x = (if x < 0 then NaN else if x = 0 then NegInf else Fin (log 10 x))"

fun times20 :: "np_float \<Rightarrow> np_float" where
  "times20 NaN = NaN"
| "times20 NegInf = NegInf"
| "times20 (Fin x) = Fin (20 * x)"

text \<open>The comparison \<^verbatim>\<open>x < c\<close> of a double with a finite constant.\<close>

fun np_less :: "np_float \<Rightarrow> real \<Rightarrow> bool" where
  "np_less NaN c = False"
| "np_less NegInf c = True"
| "np_less (Fin x) c = (x < c)"

text \<open>
  \<^verbatim>\<open>np.arctan2(y, x)\<close>, the angle of the point (x, y) by quadrant. Where y is a zero its
  sign decides between the two ends of the range: for negative x, \<^verbatim>\<open>arctan2(0.0, x)\<close> is
  \<^verbatim>\<open>pi\<close> and \<^verbatim>\<open>arctan2(-0.0, x)\<close> is \<^verbatim>\<open>-pi\<close>, and likewise for x = \<^verbatim>\<open>-0.0\<close>.
  \<^verbatim>\<open>np.angle(z, deg=True)\<close> is \<^verbatim>\<open>arctan2(z.imag, z.real) * (180 / pi)\<close>.
\<close>

definition np_arctan2 :: "dbl \<Rightarrow> dbl \<Rightarrow> real" where
  "np_arctan2 y x =
     (if 0 < val x then arctan (val y / val x)
      else if val x < 0 then
        (if val y < 0 \<or> y = NegZero then arctan (val y / val x) - pi
         else arctan (val y / val x) + pi)
      else if 0 < val y then pi / 2
      else if val y < 0 then - (pi / 2)
      else if x = NegZero then (if y = NegZero then - pi else pi)
      else 0)"

definition np_angle_deg :: "complex128 \<Rightarrow> real" where
  "np_angle_deg z = np_arctan2 (snd z) (fst z) * (180 / pi)"

text \<open>
  \<^verbatim>\<open>Path(x).name\<close> and \<^verbatim>\<open>Path(x).stem\<close> of a path without a trailing separator: the
  last component, and that component without its last suffix.
\<close>

definition path_name :: "string \<Rightarrow> string" where
  "path_name p = rev (takeWhile (\<lambda>c. c \<noteq> CHR ''/'') (rev p))"

definition path_stem :: "string \<Rightarrow> string" where
  "path_stem p =
     (let name = path_name p;
          suffix_len = length (takeWhile (\<lambda>c. c \<noteq> CHR ''.'') (rev name))
      in if CHR ''.'' \<notin> set name then name
         else (let i = length name - suffix_len - 1
               in if 0 < i \<and> i < length name - 1 then take i name else name))"

text \<open>
  Characters. A character of a file name is a code point below 256. Among these
  \<^verbatim>\<open>str.isdecimal\<close> holds of the ten digits 0 to 9, and \<^verbatim>\<open>str.isdigit\<close> holds of
  them and of the superscript digits U+00B2, U+00B3 and U+00B9. \<^verbatim>\<open>int\<close> of a string
  of such characters raises \<^verbatim>\<open>ValueError\<close> on the empty string and on a string with a
  character that is not decimal.
\<close>

definition isdecimal :: "char \<Rightarrow> bool" where
  "isdecimal c = (c \<in> set ''0123456789'')"

definition isdigit :: "char \<Rightarrow> bool" where
  "isdigit c = (isdecimal c \<or> c = CHR 0xB2 \<or> c = CHR 0xB3 \<or> c = CHR 0xB9)"

definition digit_value :: "char \<Rightarrow> int" where
  "digit_value c = int (of_char c) - 48"

definition py_int :: "string \<Rightarrow> error + int" where
  "py_int ds =
     (if ds = [] \<or> (\<exists>c \<in> set ds. \<not> isdecimal c) then Inl ValueError
      else Inr (foldl (\<lambda>a c. 10 * a + digit_value c) 0 ds))"

section \<open>load_antenna_files\<close>

text \<open>The sort key of line 16.\<close>

definition antenna_number :: "string \<Rightarrow> error + int" where
  "antenna_number x = py_int (filter isdigit (path_stem x))"

text \<open>
  \<^verbatim>\<open>list.sort(key=...)\<close> first calls the key on every element, in list order, and an
  exception there leaves the sort; then it sorts stably by the keys.
\<close>

fun compute_keys :: "string list \<Rightarrow> error + (int \<times> string) list" where
  "compute_keys [] = Inr []"
| "compute_keys (x # xs) =
     (case antenna_number x of
        Inl e \<Rightarrow> Inl e
      | Inr k \<Rightarrow> (case compute_keys xs of Inl e \<Rightarrow> Inl e | Inr ks \<Rightarrow> Inr ((k, x) # ks)))"

definition sort_files :: "string list \<Rightarrow> error + string list" where
  "sort_files s2p_files =
     (case compute_keys s2p_files of
        Inl e \<Rightarrow> Inl e
      | Inr ks \<Rightarrow> Inr (map snd (sort_key fst ks)))"

text \<open>
  The loop of lines 19-26. \<open>rf_Network\<close> stands for the scikit-rf constructor: it
  returns the network of a file or raises, the exception given by its text. The result
  is the list \<^verbatim>\<open>networks\<close> and the lines printed.
\<close>

fun load_loop :: "(string \<Rightarrow> string + network) \<Rightarrow> string list \<Rightarrow> network list \<times> log_line list" where
  "load_loop rf_Network [] = ([], [])"
| "load_loop rf_Network (file # files) =
     (let (networks, out) = load_loop rf_Network files
      in case rf_Network file of
           Inr network \<Rightarrow> (network # networks, Loaded (path_name file) # out)
         | Inl e \<Rightarrow> (networks, ErrorLoading (path_name file) e # out))"

text \<open>
  The function, given what \<^verbatim>\<open>glob.glob\<close> returned for \<^verbatim>\<open>antenna*.s2p\<close> in the
  directory.
\<close>

definition load_antenna_files ::
  "(string \<Rightarrow> string + network) \<Rightarrow> string list \<Rightarrow> error + network list \<times> log_line list" where
  "load_antenna_files rf_Network s2p_files =
     (case sort_files s2p_files of
        Inl e \<Rightarrow> Inl e
      | Inr sorted_files \<Rightarrow> Inr (load_loop rf_Network sorted_files))"

section \<open>plot_s_parameters_multi\<close>

text \<open>The arrays computed in the two plotting loops (lines 44, 45 and 58).\<close>

definition freq_ghz :: "network \<Rightarrow> real list" where
  "freq_ghz ntwk = map (\<lambda>x. x / 1000000000) (ntwk_f ntwk)"

definition s11_mag_db :: "network \<Rightarrow> np_float list" where
  "s11_mag_db ntwk = map (\<lambda>z. times20 (np_log10 (np_abs z))) (s11_flatten ntwk)"

definition s11_phase :: "network \<Rightarrow> real list" where
  "s11_phase ntwk = map np_angle_deg (s11_flatten ntwk)"

text \<open>\<^verbatim>\<open>ax.plot\<close> raises \<^verbatim>\<open>ValueError\<close> when x and y differ in length.\<close>

definition ax_plot :: "nat \<Rightarrow> real list \<Rightarrow> 'y list \<Rightarrow> error + 'y curve" where
  "ax_plot i x y =
     (if length x = length y
      then Inr \<lparr>color_index = i, antenna_label = i + 1, xdata = x, ydata = y\<rparr>
      else Inl ValueError)"

text \<open>
  \<^verbatim>\<open>for i, ntwk in enumerate(networks)\<close> around one \<^verbatim>\<open>ax.plot\<close>; \<open>y_of\<close> is the array
  plotted against \<^verbatim>\<open>freq_ghz\<close>, and \<open>i\<close> the running index. The networks are
  objects the caller goes on using, so the loop is written with its state: it returns
  the networks as it leaves them next to the lines it has drawn. The body reads
  \<^verbatim>\<open>ntwk.f\<close> and \<^verbatim>\<open>ntwk.s11.s\<close> and builds new arrays from them (the division,
  \<^verbatim>\<open>flatten\<close>, \<^verbatim>\<open>np.abs\<close>, \<^verbatim>\<open>np.log10\<close> and \<^verbatim>\<open>np.angle\<close> each return a new array); it
  assigns to no attribute of the network.
\<close>

fun plot_traces ::
  "(network \<Rightarrow> 'y list) \<Rightarrow> nat \<Rightarrow> network list \<Rightarrow> error + network list \<times> 'y curve list" where
  "plot_traces y_of i [] = Inr ([], [])"
| "plot_traces y_of i (ntwk # networks) =
     (case ax_plot i (freq_ghz ntwk) (y_of ntwk) of
        Inl e \<Rightarrow> Inl e
      | Inr c \<Rightarrow> (case plot_traces y_of (Suc i) networks of
                   Inl e \<Rightarrow> Inl e
                 | Inr (networks', cs) \<Rightarrow> Inr (ntwk # networks', c # cs)))"

text \<open>
  The function: the magnitude loop, then the phase loop over the networks the first loop
  left. It returns the figure; the networks after the call are the first component.
\<close>

definition plot_s_parameters_multi ::
  "network list \<Rightarrow> error + network list \<times> s_param_figure" where
  "plot_s_parameters_multi networks =
     (case plot_traces s11_mag_db 0 networks of
        Inl e \<Rightarrow> Inl e
      | Inr (networks1, mag_curves) \<Rightarrow>
          (case plot_traces s11_phase 0 networks1 of
             Inl e \<Rightarrow> Inl e
           | Inr (networks2, phase_curves) \<Rightarrow>
               Inr (networks2, \<lparr>ax1 = mag_curves, ax2 = phase_curves\<rparr>)))"

section \<open>plot_smith_charts\<close>

text \<open>
  The floor division of line 79 raises \<^verbatim>\<open>ZeroDivisionError\<close> for an empty list; the
  figure is \<^verbatim>\<open>fig_size[1] * n_rows\<close> high, recorded here by \<open>n_rows\<close>.
\<close>

definition plot_smith_charts :: "network list \<Rightarrow> error + smith_figure" where
  "plot_smith_charts networks =
     (let n_antennas = length networks;
          n_cols = min 3 n_antennas
      in if n_cols = 0 then Inl ZeroDivisionError
         else (let n_rows = (n_antennas - 1) div n_cols + 1
               in Inr \<lparr>height_rows = n_rows,
                       subplots = map (\<lambda>(i, ntwk).
                          \<lparr>grid_rows = n_rows, grid_cols = n_cols, grid_pos = i + 1,
                           title_no = i + 1, chart = s11_flatten ntwk\<rparr>)
                          (enumerate 0 networks)\<rparr>))"

section \<open>visualize_all_antennas\<close>

text \<open>
  \<^verbatim>\<open>return\<close> without a value gives \<^verbatim>\<open>None\<close>; the last line returns the pair of figures.
  Writing the PNG files under \<open>save_plots\<close> does not change what is returned.
\<close>

definition visualize_all_antennas ::
  "(string \<Rightarrow> string + network) \<Rightarrow> string list \<Rightarrow> bool
     \<Rightarrow> error + (s_param_figure \<times> smith_figure) option" where
  "visualize_all_antennas rf_Network s2p_files save_plots =
     (case load_antenna_files rf_Network s2p_files of
        Inl e \<Rightarrow> Inl e
      | Inr (networks, out) \<Rightarrow>
          if networks = [] then Inr None
          else (case plot_s_parameters_multi networks of
                  Inl e \<Rightarrow> Inl e
                | Inr (networks', s_param_fig) \<Rightarrow>
                    (case plot_smith_charts networks' of
                       Inl e \<Rightarrow> Inl e
                     | Inr smith_fig \<Rightarrow> Inr (Some (s_param_fig, smith_fig)))))"

section \<open>analyze_frequency_response\<close>

text \<open>Lines 123-125: the index of the closest frequency, that frequency and S11 there.\<close>

definition nearest :: "network \<Rightarrow> real \<Rightarrow> error + nat \<times> real \<times> complex128" where
  "nearest ntwk target_freq =
     (case np_argmin (map (\<lambda>x. \<bar>x - target_freq\<bar>) (ntwk_f ntwk)) of
        Inl e \<Rightarrow> Inl e
      | Inr freq_idx \<Rightarrow>
          (case np_index (ntwk_f ntwk) freq_idx of
             Inl e \<Rightarrow> Inl e
           | Inr freq \<Rightarrow>
               (case np_index (s11_flatten ntwk) freq_idx of
                  Inl e \<Rightarrow> Inl e
                | Inr s11 \<Rightarrow> Inr (freq_idx, freq, s11))))"

text \<open>Lines 137-142: the assessment printed for a magnitude.\<close>

definition classify_matching :: "np_float \<Rightarrow> match_quality" where
  "classify_matching magnitude_db =
     (if np_less magnitude_db (- 10) then Good
      else if np_less magnitude_db (- 6) then Moderate
      else Poor)"

text \<open>The body of the loop for the network at index \<open>i\<close>.\<close>

definition analyze_body :: "nat \<Rightarrow> network \<Rightarrow> real \<Rightarrow> error + report" where
  "analyze_body i ntwk target_freq =
     (case nearest ntwk target_freq of
        Inl e \<Rightarrow> Inl e
      | Inr (freq_idx, freq, s11) \<Rightarrow>
          (let magnitude_db = times20 (np_log10 (np_abs s11));
               phase_deg = np_angle_deg s11
           in Inr \<lparr>r_antenna = i + 1, r_freq = freq, r_magnitude_db = magnitude_db,
                   r_phase_deg = phase_deg, r_matching = classify_matching magnitude_db\<rparr>))"

text \<open>
  The loop: the blocks printed so far, and the exception that ended it, if any.
\<close>

fun analyze_loop :: "nat \<Rightarrow> network list \<Rightarrow> real \<Rightarrow> report list \<times> error option" where
  "analyze_loop i [] target_freq = ([], None)"
| "analyze_loop i (ntwk # networks) target_freq =
     (case analyze_body i ntwk target_freq of
        Inl e \<Rightarrow> ([], Some e)
      | Inr r \<Rightarrow> (let (rs, e) = analyze_loop (Suc i) networks target_freq in (r # rs, e)))"

definition analyze_frequency_response :: "network list \<Rightarrow> real \<Rightarrow> report list \<times> error option" where
  "analyze_frequency_response networks target_freq = analyze_loop 0 networks target_freq"

section \<open>The script body\<close>

text \<open>
  Line 149 unpacks the result of \<^verbatim>\<open>visualize_all_antennas\<close> into two names, which raises
  \<^verbatim>\<open>TypeError\<close> on \<^verbatim>\<open>None\<close>. The directory is read twice; \<open>s2p_files\<close> is what
  \<^verbatim>\<open>glob\<close> finds there both times. The analysis runs with the default target 2.4e9.
\<close>

definition main ::
  "(string \<Rightarrow> string + network) \<Rightarrow> string list
     \<Rightarrow> error + (s_param_figure \<times> smith_figure) \<times> report list" where
  "main rf_Network s2p_files =
     (case visualize_all_antennas rf_Network s2p_files True of
        Inl e \<Rightarrow> Inl e
      | Inr None \<Rightarrow> Inl TypeError
      | Inr (Some (s_param_fig, smith_fig)) \<Rightarrow>
          (case load_antenna_files rf_Network s2p_files of
             Inl e \<Rightarrow> Inl e
           | Inr (networks, out) \<Rightarrow>
               if networks \<noteq> []
               then (case analyze_frequency_response networks 2400000000 of
                       (reports, Some e) \<Rightarrow> Inl e
                     | (reports, None) \<Rightarrow> Inr ((s_param_fig, smith_fig), reports))
               else Inr ((s_param_fig, smith_fig), [])))"

section \<open>Sample data\<close>

text \<open>
  For the concrete instances below: a matrix with \<open>z\<close> on the diagonal, the network with
  the single frequency 2.4 GHz and that matrix, the one whose S11 is 0.1, and the network
  without samples.
\<close>

abbreviation diagonal :: "complex128 \<Rightarrow> smatrix" where
  "diagonal z \<equiv> ((z, (Val 0, Val 0)), ((Val 0, Val 0), z))"

abbreviation sample_network :: "complex128 \<Rightarrow> network" where
  "sample_network z \<equiv> \<lparr>ntwk_f = [2400000000], ntwk_s = [diagonal z]\<rparr>"

abbreviation matched_network :: network where
  "matched_network \<equiv> sample_network (Val (1 / 10), Val 0)"

text \<open>Three samples, the last two at the same distance from the target 2.\<close>

abbreviation tied_network :: network where
  "tied_network \<equiv>
     \<lparr>ntwk_f = [5, 3, 3],
      ntwk_s = [diagonal (Val 1, Val 0), diagonal (Val 2, Val 0), diagonal (Val 3, Val 0)]\<rparr>"

text \<open>
  Three samples with S11 = 0.1, -1 and 10, and one sample with S11 = 0.1 and S21 = 1.
\<close>

abbreviation sweep_network :: network where
  "sweep_network \<equiv>
     \<lparr>ntwk_f = [1000000000, 2000000000, 3000000000],
      ntwk_s = [diagonal (Val (1 / 10), Val 0), diagonal (Val (- 1), Val 0),
                diagonal (Val 10, Val 0)]\<rparr>"

abbreviation through_network :: network where
  "through_network \<equiv>
     \<lparr>ntwk_f = [2400000000],
      ntwk_s = [(((Val (1 / 10), Val 0), (Val 1, Val 0)),
                 ((Val 1, Val 0), (Val (1 / 10), Val 0)))]\<rparr>"

abbreviation empty_network :: network where
  "empty_network \<equiv> \<lparr>ntwk_f = [], ntwk_s = []\<rparr>"

text \<open>The block printed for \<open>matched_network\<close> at position \<open>i\<close>: -20 dB, 0 degrees.\<close>

abbreviation sample_report :: "nat \<Rightarrow> report" where
  "sample_report i \<equiv>
     \<lparr>r_antenna = i, r_freq = 2400000000, r_magnitude_db = Fin (- 20), r_phase_deg = 0,
      r_matching = Good\<rparr>"

text \<open>
  Two behaviours of the scikit-rf constructor: every file loads, and the file
  \<^verbatim>\<open>./antenna2.s2p\<close> raises while the others load.
\<close>

abbreviation every_file_loads :: "string \<Rightarrow> string + network" where
  "every_file_loads \<equiv> \<lambda>p. Inr matched_network"


section \<open>Properties of the analysis\<close>

subsection \<open>The argmin scan\<close>

text \<open>
  Invariant of the scan: \<open>ys\<close> is the part already seen, \<open>mp\<close> its minimum and \<open>mi\<close> the
  first position where it occurs.
\<close>

lemma argmin_scan_first_min:
  assumes "length ys = i" "mi < i" "ys ! mi = mp"
    and "\<forall>j<i. mp \<le> ys ! j" and "\<forall>j<mi. mp < ys ! j"
  shows "argmin_scan mp mi i xs < length (ys @ xs)
       \<and> (\<forall>j<length (ys @ xs). (ys @ xs) ! argmin_scan mp mi i xs \<le> (ys @ xs) ! j)
       \<and> (\<forall>j<argmin_scan mp mi i xs. (ys @ xs) ! argmin_scan mp mi i xs < (ys @ xs) ! j)"
  using assms
proof (induction xs arbitrary: mp mi i ys)
  case Nil
  then show ?case by simp
next
  case (Cons x xs)
  let ?ys = "ys @ [x]"
  have len: "length ?ys = Suc i" using Cons.prems by simp
  show ?case
  proof (cases "x < mp")
    case True
    have b: "?ys ! i = x" using Cons.prems(1) by (auto simp: nth_append)
    have c: "\<forall>j<Suc i. x \<le> ?ys ! j"
      using Cons.prems True by (auto simp: nth_append less_Suc_eq)
    have d: "\<forall>j<i. x < ?ys ! j"
      using Cons.prems True by (auto simp: nth_append)
    from Cons.IH [OF len _ b c d] True show ?thesis by simp
  next
    case False
    have b: "?ys ! mi = mp" using Cons.prems by (simp add: nth_append)
    have c: "\<forall>j<Suc i. mp \<le> ?ys ! j"
      using Cons.prems False by (auto simp: nth_append less_Suc_eq)
    have d: "\<forall>j<mi. mp < ?ys ! j"
      using Cons.prems by (auto simp: nth_append)
    have e: "mi < Suc i" using Cons.prems by simp
    from Cons.IH [OF len e b c d] False show ?thesis by simp
  qed
qed

lemma np_argmin_first_min:
  assumes "xs \<noteq> []"
  shows "\<exists>k. np_argmin xs = Inr k \<and> k < length xs
           \<and> (\<forall>j<length xs. xs ! k \<le> xs ! j) \<and> (\<forall>j<k. xs ! k < xs ! j)"
proof -
  from assms obtain x rest where xs: "xs = x # rest" by (cases xs) auto
  have "argmin_scan x 0 1 rest < length ([x] @ rest)
       \<and> (\<forall>j<length ([x] @ rest). ([x] @ rest) ! argmin_scan x 0 1 rest \<le> ([x] @ rest) ! j)
       \<and> (\<forall>j<argmin_scan x 0 1 rest. ([x] @ rest) ! argmin_scan x 0 1 rest < ([x] @ rest) ! j)"
    by (rule argmin_scan_first_min) auto
  then show ?thesis by (simp add: xs np_argmin_def)
qed

lemma np_argmin_empty: "np_argmin [] = Inl ValueError"
  by (simp add: np_argmin_def)

text \<open>
  On a network whose two arrays have the same length, \<open>nearest\<close> returns the index the
  scan selects together with the frequency and the S11 sample stored there.
\<close>

lemma nearest_result:
  assumes "ntwk_f ntwk \<noteq> []" and "length (ntwk_s ntwk) = length (ntwk_f ntwk)"
  shows "\<exists>k. nearest ntwk t = Inr (k, ntwk_f ntwk ! k, s11_flatten ntwk ! k)
           \<and> k < length (ntwk_f ntwk)
           \<and> (\<forall>j<length (ntwk_f ntwk). \<bar>ntwk_f ntwk ! k - t\<bar> \<le> \<bar>ntwk_f ntwk ! j - t\<bar>)
           \<and> (\<forall>j<k. \<bar>ntwk_f ntwk ! k - t\<bar> < \<bar>ntwk_f ntwk ! j - t\<bar>)"
proof -
  let ?d = "map (\<lambda>x. \<bar>x - t\<bar>) (ntwk_f ntwk)"
  have "?d \<noteq> []" using assms(1) by simp
  from np_argmin_first_min [OF this] obtain k where
    k: "np_argmin ?d = Inr k" "k < length ?d"
       "\<forall>j<length ?d. ?d ! k \<le> ?d ! j" "\<forall>j<k. ?d ! k < ?d ! j"
    by blast
  have klt: "k < length (ntwk_f ntwk)" using k(2) by simp
  have "nearest ntwk t = Inr (k, ntwk_f ntwk ! k, s11_flatten ntwk ! k)"
    using k(1) klt assms(2) by (simp add: nearest_def np_index_def s11_flatten_def)
  moreover have "\<forall>j<length (ntwk_f ntwk). \<bar>ntwk_f ntwk ! k - t\<bar> \<le> \<bar>ntwk_f ntwk ! j - t\<bar>"
    using k(3) klt by simp
  moreover have "\<forall>j<k. \<bar>ntwk_f ntwk ! k - t\<bar> < \<bar>ntwk_f ntwk ! j - t\<bar>"
    using k(4) klt by simp
  ultimately show ?thesis using klt by blast
qed

subsection \<open>The point query and the assessment\<close>

text \<open>
  C1. The assessment of a real magnitude: below -10 dB it is Good, from -10 dB up to but
  excluding -6 dB it is Moderate, and from -6 dB on it is Poor. At the boundaries, -10 is
  Moderate, -10.0001 is Good, -6 is Poor and -6.0001 is Moderate.
\<close>

theorem classify_matching_thresholds:
  "(m < - 10 \<longrightarrow> classify_matching (Fin m) = Good)
   \<and> (- 10 \<le> m \<and> m < - 6 \<longrightarrow> classify_matching (Fin m) = Moderate)
   \<and> (- 6 \<le> m \<longrightarrow> classify_matching (Fin m) = Poor)
   \<and> classify_matching (Fin (- 10)) = Moderate
   \<and> classify_matching (Fin (- (100001 / 10000))) = Good
   \<and> classify_matching (Fin (- 6)) = Poor
   \<and> classify_matching (Fin (- (60001 / 10000))) = Moderate"
  by (simp add: classify_matching_def)

theorem classify_matching_thresholds_witness:
  "(- 20 :: real) < - 10 \<and> classify_matching (Fin (- 20)) = Good
   \<and> (- 10 :: real) \<le> - 8 \<and> (- 8 :: real) < - 6 \<and> classify_matching (Fin (- 8)) = Moderate
   \<and> (- 6 :: real) \<le> 0 \<and> classify_matching (Fin 0) = Poor"
  using classify_matching_thresholds [of "- 20"] classify_matching_thresholds [of "- 8"]
    classify_matching_thresholds [of 0]
  by simp

text \<open>
  C2. On a network with at least one frequency sample, the index selected by \<open>nearest\<close>
  minimises the distance of the frequency to the target, and every earlier index is
  strictly farther away, so the first index of the minimum is chosen. For the
  frequencies 1, 2, 3 Hz and the target 1.5 the index is 0.
\<close>

theorem nearest_first_minimum:
  "(ntwk_f ntwk \<noteq> [] \<and> length (ntwk_s ntwk) = length (ntwk_f ntwk) \<longrightarrow>
      (\<exists>k. nearest ntwk t = Inr (k, ntwk_f ntwk ! k, s11_flatten ntwk ! k)
         \<and> k < length (ntwk_f ntwk)
         \<and> (\<forall>j<length (ntwk_f ntwk). \<bar>ntwk_f ntwk ! k - t\<bar> \<le> \<bar>ntwk_f ntwk ! j - t\<bar>)
         \<and> (\<forall>j<k. \<bar>ntwk_f ntwk ! k - t\<bar> < \<bar>ntwk_f ntwk ! j - t\<bar>)))
   \<and> nearest \<lparr>ntwk_f = [1, 2, 3], ntwk_s = [m1, m2, m3]\<rparr> (3 / 2) = Inr (0, 1, fst (fst m1))"
proof -
  have "nearest \<lparr>ntwk_f = [1, 2, 3], ntwk_s = [m1, m2, m3]\<rparr> (3 / 2) = Inr (0, 1, fst (fst m1))"
    by (simp add: nearest_def np_argmin_def np_index_def s11_flatten_def)
  then show ?thesis using nearest_result [of ntwk t] by blast
qed

theorem nearest_first_minimum_witness:
  "ntwk_f tied_network \<noteq> []
   \<and> length (ntwk_s tied_network) = length (ntwk_f tied_network)
   \<and> nearest tied_network 2 = Inr (1, 3, (Val 2, Val 0))
   \<and> (\<exists>k. nearest tied_network 2
               = Inr (k, [5, 3, 3] ! k, [(Val 1, Val 0), (Val 2, Val 0), (Val 3, Val 0)] ! k)
         \<and> k < 3
         \<and> (\<forall>j<3. \<bar>[5, 3, 3] ! k - (2::real)\<bar> \<le> \<bar>[5, 3, 3] ! j - 2\<bar>)
         \<and> (\<forall>j<k. \<bar>[5, 3, 3] ! k - (2::real)\<bar> < \<bar>[5, 3, 3] ! j - 2\<bar>))"
proof -
  let ?N = "tied_network"
  have h: "ntwk_f ?N \<noteq> [] \<and> length (ntwk_s ?N) = length (ntwk_f ?N)" by simp
  have f: "ntwk_f ?N = [5, 3, 3]" and l: "length [5, 3, 3 :: real] = 3"
    and s: "s11_flatten ?N = [(Val 1, Val 0), (Val 2, Val 0), (Val 3, Val 0)]"
    by (simp_all add: s11_flatten_def)
  have v: "nearest ?N 2 = Inr (1, 3, (Val 2, Val 0))"
    by (simp add: nearest_def np_argmin_def np_index_def s11_flatten_def)
  from nearest_first_minimum [of ?N 2] h
  have "\<exists>k. nearest ?N 2 = Inr (k, ntwk_f ?N ! k, s11_flatten ?N ! k)
         \<and> k < length (ntwk_f ?N)
         \<and> (\<forall>j<length (ntwk_f ?N). \<bar>ntwk_f ?N ! k - 2\<bar> \<le> \<bar>ntwk_f ?N ! j - 2\<bar>)
         \<and> (\<forall>j<k. \<bar>ntwk_f ?N ! k - 2\<bar> < \<bar>ntwk_f ?N ! j - 2\<bar>)"
    by blast
  then have "\<exists>k. nearest ?N 2
               = Inr (k, [5, 3, 3] ! k, [(Val 1, Val 0), (Val 2, Val 0), (Val 3, Val 0)] ! k)
         \<and> k < 3
         \<and> (\<forall>j<3. \<bar>[5, 3, 3] ! k - (2::real)\<bar> \<le> \<bar>[5, 3, 3] ! j - 2\<bar>)
         \<and> (\<forall>j<k. \<bar>[5, 3, 3] ! k - (2::real)\<bar> < \<bar>[5, 3, 3] ! j - 2\<bar>)"
    unfolding f l s .
  with h v show ?thesis by blast
qed

text \<open>
  C3. On a network without frequency samples \<open>nearest\<close> raises: the argmin of the empty
  array is an error (numpy's ValueError), and no index, frequency or sample is returned.
  The loop body fails with it as well.
\<close>

theorem nearest_empty_fails:
  "ntwk_f ntwk = [] \<Longrightarrow>
     nearest ntwk t = Inl ValueError \<and> (\<forall>r. nearest ntwk t \<noteq> Inr r)
     \<and> analyze_body i ntwk t = Inl ValueError"
  by (simp add: nearest_def analyze_body_def np_argmin_empty)

theorem nearest_empty_fails_witness:
  "ntwk_f empty_network = []
   \<and> nearest empty_network 2400000000 = Inl ValueError
   \<and> analyze_body 0 empty_network 2400000000 = Inl ValueError"
  using nearest_empty_fails [of "empty_network" 2400000000 0]
  by simp

subsection \<open>Magnitude and phase of a sample\<close>

text \<open>The magnitude printed and plotted for a sample: minus infinity at 0, finite elsewhere.\<close>

lemma magnitude_of_sample:
  "times20 (np_log10 (np_abs z))
     = (if to_complex z = 0 then NegInf else Fin (20 * log 10 (np_abs z)))"
  by (simp add: np_log10_def np_abs_def)

text \<open>The branches of the quadrant definition, one case each.\<close>

lemma arctan_div_nonpos:
  assumes "x < 0" "0 \<le> y"
  shows "arctan (y / x) \<le> 0"
proof -
  have "y / x \<le> 0" using assms by (simp add: divide_nonneg_neg)
  then show ?thesis using arctan_le_zero_iff by blast
qed

lemma arctan_div_pos:
  assumes "x < 0" "y < 0"
  shows "0 < arctan (y / x)"
proof -
  have "0 < y / x" using assms by (simp add: divide_neg_neg)
  then show ?thesis using zero_less_arctan_iff by blast
qed

lemma np_arctan2_cases:
  obtains (right) "0 < val x" "np_arctan2 y x = arctan (val y / val x)"
  | (lower_left) "val x < 0" "val y < 0 \<or> y = NegZero" "np_arctan2 y x = arctan (val y / val x) - pi"
  | (upper_left) "val x < 0" "0 \<le> val y" "y \<noteq> NegZero" "np_arctan2 y x = arctan (val y / val x) + pi"
  | (up) "val x = 0" "0 < val y" "np_arctan2 y x = pi / 2"
  | (down) "val x = 0" "val y < 0" "np_arctan2 y x = - (pi / 2)"
  | (zero_neg) "val x = 0" "val y = 0" "x = NegZero" "y = NegZero" "np_arctan2 y x = - pi"
  | (zero_pos) "val x = 0" "val y = 0" "x = NegZero" "y \<noteq> NegZero" "np_arctan2 y x = pi"
  | (zero) "val x = 0" "val y = 0" "x \<noteq> NegZero" "np_arctan2 y x = 0"
  unfolding np_arctan2_def by (cases "0 < val x"; cases "val x < 0"; cases "0 < val y";
    cases "val y < 0"; cases "x = NegZero"; cases "y = NegZero"; force)

text \<open>
  The angle lies between -pi and pi, both included; -pi is the angle of a negative zero
  over a negative number or a negative zero.
\<close>

lemma np_arctan2_bounds: "- pi \<le> np_arctan2 y x \<and> np_arctan2 y x \<le> pi"
proof -
  have lb: "- (pi / 2) < arctan (val y / val x)" and ub: "arctan (val y / val x) < pi / 2"
    by (rule arctan_lbound, rule arctan_ubound)
  have pos: "0 < pi" by simp
  show ?thesis
  proof (cases y x rule: np_arctan2_cases)
    case lower_left
    then have "0 \<le> arctan (val y / val x)"
      using arctan_div_pos [of "val x" "val y"] by (cases y) auto
    then show ?thesis using lower_left ub pos by linarith
  next
    case upper_left
    then show ?thesis using arctan_div_nonpos [of "val x" "val y"] lb pos by linarith
  qed (use lb ub pos in linarith)+
qed

lemma np_arctan2_negative_zero:
  assumes "y = NegZero" and "val x < 0 \<or> x = NegZero"
  shows "np_arctan2 y x = - pi"
  using assms by (auto simp: np_arctan2_def)

text \<open>The same in degrees.\<close>

lemma scale_deg_le:
  assumes "a \<le> b" shows "a * (180 / pi) \<le> b * (180 / pi)"
  using assms by (intro mult_right_mono) simp_all

lemma pi_deg: "pi * (180 / pi) = 180" "- pi * (180 / pi) = - 180"
  by simp_all

lemma np_angle_deg_bounds: "- 180 \<le> np_angle_deg z \<and> np_angle_deg z \<le> 180"
  using scale_deg_le [of "- pi" "np_arctan2 (snd z) (fst z)"]
    scale_deg_le [of "np_arctan2 (snd z) (fst z)" pi] np_arctan2_bounds [of "snd z" "fst z"]
  unfolding np_angle_deg_def pi_deg by blast

lemma np_angle_deg_negative_zero:
  assumes "snd z = NegZero" and "val (fst z) < 0 \<or> fst z = NegZero"
  shows "np_angle_deg z = - 180"
  using np_arctan2_negative_zero [OF assms] by (simp add: np_angle_deg_def)

text \<open>
  The angle is the argument of the point: modulus times cosine and sine give back the
  two coordinates.
\<close>

lemma cos_sin_arctan_div:
  assumes "0 < x"
  shows "sqrt (x\<^sup>2 + y\<^sup>2) * cos (arctan (y / x)) = x"
    and "sqrt (x\<^sup>2 + y\<^sup>2) * sin (arctan (y / x)) = y"
proof -
  have r: "sqrt (1 + (y / x)\<^sup>2) = sqrt (x\<^sup>2 + y\<^sup>2) / x"
  proof -
    have "1 + (y / x)\<^sup>2 = (x\<^sup>2 + y\<^sup>2) / x\<^sup>2"
      using assms by (simp add: power_divide field_simps)
    then have "sqrt (1 + (y / x)\<^sup>2) = sqrt (x\<^sup>2 + y\<^sup>2) / sqrt (x\<^sup>2)"
      by (simp add: real_sqrt_divide)
    then show ?thesis using assms by simp
  qed
  have nz: "sqrt (x\<^sup>2 + y\<^sup>2) \<noteq> 0" using assms by auto
  show "sqrt (x\<^sup>2 + y\<^sup>2) * cos (arctan (y / x)) = x"
    using assms nz by (simp add: cos_arctan r)
  show "sqrt (x\<^sup>2 + y\<^sup>2) * sin (arctan (y / x)) = y"
    using assms nz by (simp add: sin_arctan r)
qed

lemma cos_sin_arctan_div_left:
  assumes "x < 0"
  shows "sqrt (x\<^sup>2 + y\<^sup>2) * cos (arctan (y / x)) = - x"
    and "sqrt (x\<^sup>2 + y\<^sup>2) * sin (arctan (y / x)) = - y"
proof -
  have p: "0 < - x" using assms by simp
  have q: "(- y) / (- x) = y / x" by simp
  from cos_sin_arctan_div [OF p, of "- y"]
  show "sqrt (x\<^sup>2 + y\<^sup>2) * cos (arctan (y / x)) = - x"
    and "sqrt (x\<^sup>2 + y\<^sup>2) * sin (arctan (y / x)) = - y"
    unfolding q by simp_all
qed

lemma np_arctan2_polar:
  assumes "val x \<noteq> 0 \<or> val y \<noteq> 0"
  shows "sqrt ((val x)\<^sup>2 + (val y)\<^sup>2) * cos (np_arctan2 y x) = val x
       \<and> sqrt ((val x)\<^sup>2 + (val y)\<^sup>2) * sin (np_arctan2 y x) = val y"
proof (cases y x rule: np_arctan2_cases)
  case right
  then show ?thesis using cos_sin_arctan_div [of "val x" "val y"] by simp
next
  case lower_left
  then show ?thesis using cos_sin_arctan_div_left [of "val x" "val y"]
    by (simp add: cos_diff sin_diff)
next
  case upper_left
  then show ?thesis using cos_sin_arctan_div_left [of "val x" "val y"]
    by (simp add: cos_add sin_add)
next
  case up
  show ?thesis unfolding up(3) using up(1,2) by simp
next
  case down
  show ?thesis unfolding down(3) using down(1,2) by simp
qed (use assms in simp_all)

lemma np_angle_deg_polar:
  assumes "to_complex z \<noteq> 0"
  shows "np_abs z * cos (np_angle_deg z * (pi / 180)) = Re (to_complex z)
       \<and> np_abs z * sin (np_angle_deg z * (pi / 180)) = Im (to_complex z)"
proof -
  have "val (fst z) \<noteq> 0 \<or> val (snd z) \<noteq> 0"
    using assms by (auto simp: to_complex_def complex_eq_iff)
  from np_arctan2_polar [OF this] show ?thesis
    by (simp add: np_angle_deg_def np_abs_def to_complex_def cmod_def)
qed

text \<open>What the loop body returns when it returns.\<close>

lemma analyze_body_fields:
  assumes "analyze_body i ntwk t = Inr r"
  shows "\<exists>k fr s. nearest ntwk t = Inr (k, fr, s)
           \<and> r = \<lparr>r_antenna = i + 1, r_freq = fr,
                   r_magnitude_db = times20 (np_log10 (np_abs s)),
                   r_phase_deg = np_angle_deg s,
                   r_matching = classify_matching (times20 (np_log10 (np_abs s)))\<rparr>"
  using assms by (auto simp: analyze_body_def Let_def split: sum.splits prod.splits)

text \<open>The sample 0.1 and the block printed for \<open>matched_network\<close>.\<close>

lemma matched_sample:
  "to_complex (Val (1 / 10), Val 0) = 1 / 10"
  "np_abs (Val (1 / 10), Val 0) = 1 / 10"
  "np_log10 (1 / 10) = Fin (- 1)"
  "np_angle_deg (Val (1 / 10), Val 0) = 0"
  by (simp_all add: to_complex_def complex_eq_iff np_abs_def cmod_def np_log10_def log_divide
      np_angle_deg_def np_arctan2_def)

lemma analyze_body_example:
  "analyze_body i matched_network 2400000000 = Inr (sample_report (i + 1))"
  by (simp add: analyze_body_def nearest_def np_argmin_def np_index_def s11_flatten_def
      matched_sample classify_matching_def)

text \<open>
  C4. The magnitude derived from a sample S is 20 log10 |S|: a finite value for every
  nonzero S, whose inverse 10^(m/20) is |S| again, and minus infinity at S = 0, where
  numpy's log10 returns it. This is the value of every point of the plotted magnitude
  trace and of the magnitude field of the report at the nearest sample.
\<close>

theorem magnitude_db_formula:
  "times20 (np_log10 (np_abs S))
     = (if to_complex S = 0 then NegInf else Fin (20 * log 10 (cmod (to_complex S))))
   \<and> (to_complex S \<noteq> 0 \<longrightarrow> 10 powr (20 * log 10 (cmod (to_complex S)) / 20) = cmod (to_complex S))
   \<and> (\<forall>k<length (s11_flatten ntwk).
         s11_mag_db ntwk ! k = times20 (np_log10 (np_abs (s11_flatten ntwk ! k))))
   \<and> (analyze_body i ntwk t = Inr r \<longrightarrow>
         (\<exists>k fr s. nearest ntwk t = Inr (k, fr, s)
            \<and> r_magnitude_db r = times20 (np_log10 (np_abs s))))"
proof -
  have a: "times20 (np_log10 (np_abs S))
     = (if to_complex S = 0 then NegInf else Fin (20 * log 10 (cmod (to_complex S))))"
    using magnitude_of_sample [of S] by (simp add: np_abs_def)
  have b: "to_complex S \<noteq> 0 \<longrightarrow>
      10 powr (20 * log 10 (cmod (to_complex S)) / 20) = cmod (to_complex S)"
    by simp
  have c: "\<forall>k<length (s11_flatten ntwk).
         s11_mag_db ntwk ! k = times20 (np_log10 (np_abs (s11_flatten ntwk ! k)))"
    by (simp add: s11_mag_db_def)
  have d: "analyze_body i ntwk t = Inr r \<longrightarrow>
         (\<exists>k fr s. nearest ntwk t = Inr (k, fr, s)
            \<and> r_magnitude_db r = times20 (np_log10 (np_abs s)))"
  proof
    assume "analyze_body i ntwk t = Inr r"
    from analyze_body_fields [OF this] obtain k fr s where
      "nearest ntwk t = Inr (k, fr, s)" "r_magnitude_db r = times20 (np_log10 (np_abs s))"
      by auto
    then show "\<exists>k fr s. nearest ntwk t = Inr (k, fr, s)
            \<and> r_magnitude_db r = times20 (np_log10 (np_abs s))" by blast
  qed
  from a b c d show ?thesis by blast
qed

theorem magnitude_db_formula_witness:
  "to_complex (Val (1 / 10), Val 0) \<noteq> 0
   \<and> times20 (np_log10 (np_abs (Val (1 / 10), Val 0))) = Fin (- 20)
   \<and> 10 powr (20 * log 10 (cmod (to_complex (Val (1 / 10), Val 0))) / 20)
       = cmod (to_complex (Val (1 / 10), Val 0))
   \<and> 0 < length (s11_flatten matched_network)
   \<and> s11_mag_db matched_network ! 0 = Fin (- 20)
   \<and> analyze_body 0 matched_network 2400000000 = Inr (sample_report 1)
   \<and> (\<exists>k fr s. nearest matched_network 2400000000 = Inr (k, fr, s)
          \<and> Fin (- 20) = times20 (np_log10 (np_abs s)))"
proof -
  let ?S = "(Val (1 / 10), Val 0)"
  have h1: "to_complex ?S \<noteq> 0" by (simp add: matched_sample)
  have h2: "0 < length (s11_flatten matched_network)"
    and s: "s11_flatten matched_network ! 0 = ?S"
    by (simp_all add: s11_flatten_def)
  have h3: "analyze_body 0 matched_network 2400000000 = Inr (sample_report 1)"
    using analyze_body_example [of 0] by simp
  note m = magnitude_db_formula [of ?S matched_network 0 2400000000 "sample_report 1"]
  have v: "times20 (np_log10 (np_abs ?S)) = Fin (- 20)"
    using m h1 by (simp add: matched_sample log_divide)
  have p: "10 powr (20 * log 10 (cmod (to_complex ?S)) / 20) = cmod (to_complex ?S)"
    using m h1 by blast
  have t: "s11_mag_db matched_network ! 0 = Fin (- 20)" using m h2 s v by simp
  have n: "\<exists>k fr s. nearest matched_network 2400000000 = Inr (k, fr, s)
          \<and> Fin (- 20) = times20 (np_log10 (np_abs s))" using m h3 by simp
  from h1 v p h2 t h3 n show ?thesis by blast
qed

text \<open>
  C5, as stated: the phase is atan2(Im S, Re S) in degrees and lies in the interval from
  -180 (excluded) to 180. The sample -1 - 0.0j refutes the bound: numpy's arctan2 of a
  negative zero and a negative number is -pi, so the phase printed for it is -180.
\<close>

theorem phase_minus_180_counterexample:
  "\<not> (- 180 < np_angle_deg (Val (- 1), NegZero) \<and> np_angle_deg (Val (- 1), NegZero) \<le> 180)
   \<and> analyze_body 0 (sample_network (Val (- 1), NegZero)) 2400000000
        = Inr \<lparr>r_antenna = 1, r_freq = 2400000000, r_magnitude_db = Fin 0,
               r_phase_deg = - 180, r_matching = Poor\<rparr>"
proof -
  have c: "to_complex (Val (- 1), NegZero) = - 1"
    by (simp add: to_complex_def complex_eq_iff)
  show ?thesis
    by (simp add: analyze_body_def nearest_def np_argmin_def np_index_def s11_flatten_def
        np_log10_def np_angle_deg_def np_arctan2_def classify_matching_def np_abs_def c)
qed

text \<open>
  C5, amended. The phase derived from a sample S is atan2(Im S, Re S) in degrees and lies
  in the closed interval from -180 to 180. For nonzero S it is, over the reals, the
  argument of S. This is the value of every point of the plotted phase trace and of the
  phase field of the report at the nearest sample.
\<close>

theorem phase_deg_formula:
  "np_angle_deg S = np_arctan2 (snd S) (fst S) * (180 / pi)
   \<and> - 180 \<le> np_angle_deg S \<and> np_angle_deg S \<le> 180
   \<and> (to_complex S \<noteq> 0 \<longrightarrow>
         cmod (to_complex S) * cos (np_angle_deg S * (pi / 180)) = Re (to_complex S)
         \<and> cmod (to_complex S) * sin (np_angle_deg S * (pi / 180)) = Im (to_complex S))
   \<and> (\<forall>k<length (s11_flatten ntwk). s11_phase ntwk ! k = np_angle_deg (s11_flatten ntwk ! k))
   \<and> (analyze_body i ntwk t = Inr r \<longrightarrow>
         (\<exists>k fr s. nearest ntwk t = Inr (k, fr, s) \<and> r_phase_deg r = np_angle_deg s))"
proof -
  have a: "np_angle_deg S = np_arctan2 (snd S) (fst S) * (180 / pi)"
    by (simp add: np_angle_deg_def)
  have b: "- 180 \<le> np_angle_deg S \<and> np_angle_deg S \<le> 180"
    by (rule np_angle_deg_bounds)
  have c: "to_complex S \<noteq> 0 \<longrightarrow>
         cmod (to_complex S) * cos (np_angle_deg S * (pi / 180)) = Re (to_complex S)
         \<and> cmod (to_complex S) * sin (np_angle_deg S * (pi / 180)) = Im (to_complex S)"
    using np_angle_deg_polar [of S] by (simp add: np_abs_def)
  have d: "\<forall>k<length (s11_flatten ntwk). s11_phase ntwk ! k = np_angle_deg (s11_flatten ntwk ! k)"
    by (simp add: s11_phase_def)
  have e: "analyze_body i ntwk t = Inr r \<longrightarrow>
         (\<exists>k fr s. nearest ntwk t = Inr (k, fr, s) \<and> r_phase_deg r = np_angle_deg s)"
  proof
    assume "analyze_body i ntwk t = Inr r"
    from analyze_body_fields [OF this] obtain k fr s where
      "nearest ntwk t = Inr (k, fr, s)" "r_phase_deg r = np_angle_deg s"
      by auto
    then show "\<exists>k fr s. nearest ntwk t = Inr (k, fr, s) \<and> r_phase_deg r = np_angle_deg s"
      by blast
  qed
  from a b c d e show ?thesis by blast
qed

theorem phase_deg_formula_witness:
  "to_complex (Val (- 1), Val 0) \<noteq> 0
   \<and> np_angle_deg (Val (- 1), Val 0) = 180
   \<and> cmod (to_complex (Val (- 1), Val 0)) * cos (np_angle_deg (Val (- 1), Val 0) * (pi / 180))
       = Re (to_complex (Val (- 1), Val 0))
   \<and> cmod (to_complex (Val (- 1), Val 0)) * sin (np_angle_deg (Val (- 1), Val 0) * (pi / 180))
       = Im (to_complex (Val (- 1), Val 0))
   \<and> 0 < length (s11_flatten (sample_network (Val (- 1), Val 0)))
   \<and> s11_phase (sample_network (Val (- 1), Val 0)) ! 0 = 180
   \<and> analyze_body 0 (sample_network (Val (- 1), Val 0)) 2400000000
        = Inr \<lparr>r_antenna = 1, r_freq = 2400000000, r_magnitude_db = Fin 0,
               r_phase_deg = 180, r_matching = Poor\<rparr>
   \<and> (\<exists>k fr s. nearest (sample_network (Val (- 1), Val 0)) 2400000000 = Inr (k, fr, s)
          \<and> 180 = np_angle_deg s)"
proof -
  let ?N = "sample_network (Val (- 1), Val 0)"
  let ?R = "\<lparr>r_antenna = 1, r_freq = 2400000000, r_magnitude_db = Fin 0,
               r_phase_deg = 180, r_matching = Poor\<rparr>"
  let ?S = "(Val (- 1), Val 0)"
  have cm: "to_complex ?S = - 1"
    by (simp add: to_complex_def complex_eq_iff)
  have h1: "to_complex ?S \<noteq> 0" unfolding cm by simp
  have h2: "0 < length (s11_flatten ?N)" and s: "s11_flatten ?N ! 0 = ?S"
    by (simp_all add: s11_flatten_def)
  have h3: "analyze_body 0 ?N 2400000000 = Inr ?R"
    by (simp add: analyze_body_def nearest_def np_argmin_def np_index_def s11_flatten_def
        np_log10_def np_angle_deg_def np_arctan2_def classify_matching_def np_abs_def cm)
  note m = phase_deg_formula [of ?S ?N 0 2400000000 ?R]
  have v: "np_angle_deg ?S = 180" using m by (simp add: np_arctan2_def)
  have p: "cmod (to_complex ?S) * cos (np_angle_deg ?S * (pi / 180)) = Re (to_complex ?S)
         \<and> cmod (to_complex ?S) * sin (np_angle_deg ?S * (pi / 180)) = Im (to_complex ?S)"
    using m h1 by blast
  have t: "s11_phase ?N ! 0 = 180" using m h2 s v by simp
  have n: "\<exists>k fr s. nearest ?N 2400000000 = Inr (k, fr, s) \<and> 180 = np_angle_deg s"
    using m h3 by simp
  from h1 v p h2 t h3 n show ?thesis by blast
qed

section \<open>Properties of the batch report\<close>

text \<open>
  On a network with samples and arrays of equal length the loop body returns the block
  for the nearest sample.
\<close>

lemma analyze_body_ok:
  assumes "ntwk_f ntwk \<noteq> []" and "length (ntwk_s ntwk) = length (ntwk_f ntwk)"
  shows "\<exists>k. k < length (ntwk_f ntwk)
      \<and> nearest ntwk t = Inr (k, ntwk_f ntwk ! k, s11_flatten ntwk ! k)
      \<and> analyze_body i ntwk t =
          Inr \<lparr>r_antenna = i + 1, r_freq = ntwk_f ntwk ! k,
               r_magnitude_db = times20 (np_log10 (np_abs (s11_flatten ntwk ! k))),
               r_phase_deg = np_angle_deg (s11_flatten ntwk ! k),
               r_matching = classify_matching
                 (times20 (np_log10 (np_abs (s11_flatten ntwk ! k))))\<rparr>"
proof -
  from nearest_result [OF assms, of t] obtain k where
    k: "nearest ntwk t = Inr (k, ntwk_f ntwk ! k, s11_flatten ntwk ! k)"
       "k < length (ntwk_f ntwk)"
    by blast
  then show ?thesis by (auto simp: analyze_body_def Let_def)
qed

text \<open>
  The loop over a list of such networks runs to its end; a network without samples ends
  it at that position.
\<close>

lemma analyze_loop_complete:
  assumes "\<forall>n \<in> set networks. ntwk_f n \<noteq> [] \<and> length (ntwk_s n) = length (ntwk_f n)"
  shows "snd (analyze_loop j networks t) = None
       \<and> length (fst (analyze_loop j networks t)) = length networks
       \<and> (\<forall>i<length networks.
             analyze_body (j + i) (networks ! i) t = Inr (fst (analyze_loop j networks t) ! i))"
  using assms
proof (induction networks arbitrary: j)
  case Nil
  then show ?case by simp
next
  case (Cons n ns)
  from Cons.prems have "ntwk_f n \<noteq> []" "length (ntwk_s n) = length (ntwk_f n)" by simp_all
  from analyze_body_ok [OF this, of t j] obtain r where r: "analyze_body j n t = Inr r"
    by blast
  from Cons.prems have "\<forall>n \<in> set ns. ntwk_f n \<noteq> [] \<and> length (ntwk_s n) = length (ntwk_f n)"
    by simp
  note ih = Cons.IH [OF this, of "Suc j"]
  obtain rs e where l: "analyze_loop (Suc j) ns t = (rs, e)" by (cases "analyze_loop (Suc j) ns t")
  have step: "analyze_loop j (n # ns) t = (r # rs, e)" using r l by simp
  have "\<forall>i<length (n # ns). analyze_body (j + i) ((n # ns) ! i) t = Inr ((r # rs) ! i)"
  proof (intro allI impI)
    fix i assume "i < length (n # ns)"
    then show "analyze_body (j + i) ((n # ns) ! i) t = Inr ((r # rs) ! i)"
      using r ih l by (cases i) auto
  qed
  then show ?case using ih l unfolding step by simp
qed

lemma analyze_loop_stops:
  assumes "m < length networks" and "ntwk_f (networks ! m) = []"
    and "\<forall>i<m. ntwk_f (networks ! i) \<noteq> []
            \<and> length (ntwk_s (networks ! i)) = length (ntwk_f (networks ! i))"
  shows "snd (analyze_loop j networks t) = Some ValueError
       \<and> length (fst (analyze_loop j networks t)) = m
       \<and> (\<forall>i<m. analyze_body (j + i) (networks ! i) t
                    = Inr (fst (analyze_loop j networks t) ! i))"
  using assms
proof (induction networks arbitrary: j m)
  case Nil
  then show ?case by simp
next
  case (Cons n ns)
  show ?case
  proof (cases m)
    case 0
    then have "ntwk_f n = []" using Cons.prems by simp
    then have "analyze_body j n t = Inl ValueError"
      by (simp add: nearest_def analyze_body_def np_argmin_empty)
    then show ?thesis using 0 by simp
  next
    case (Suc m')
    have "ntwk_f n \<noteq> []" "length (ntwk_s n) = length (ntwk_f n)"
      using Cons.prems(3) Suc by auto
    from analyze_body_ok [OF this, of t j] obtain r where r: "analyze_body j n t = Inr r"
      by blast
    have a: "m' < length ns" "ntwk_f (ns ! m') = []"
      using Cons.prems Suc by simp_all
    have b: "\<forall>i<m'. ntwk_f (ns ! i) \<noteq> [] \<and> length (ntwk_s (ns ! i)) = length (ntwk_f (ns ! i))"
      using Cons.prems(3) Suc by auto
    note ih = Cons.IH [OF a b, of "Suc j"]
    obtain rs e where l: "analyze_loop (Suc j) ns t = (rs, e)"
      by (cases "analyze_loop (Suc j) ns t")
    have step: "analyze_loop j (n # ns) t = (r # rs, e)" using r l by simp
    have "\<forall>i<m. analyze_body (j + i) ((n # ns) ! i) t = Inr ((r # rs) ! i)"
    proof (intro allI impI)
      fix i assume "i < m"
      then show "analyze_body (j + i) ((n # ns) ! i) t = Inr ((r # rs) ! i)"
        using r ih l Suc by (cases i) auto
    qed
    then show ?thesis using ih l Suc unfolding step by simp
  qed
qed

text \<open>The record of a network, read off the body of the loop.\<close>

lemma analyze_body_record:
  assumes "ntwk_f ntwk \<noteq> []" and "length (ntwk_s ntwk) = length (ntwk_f ntwk)"
    and "analyze_body i ntwk t = Inr r"
  shows "\<exists>k<length (ntwk_f ntwk).
      nearest ntwk t = Inr (k, ntwk_f ntwk ! k, s11_flatten ntwk ! k)
      \<and> r = \<lparr>r_antenna = i + 1, r_freq = ntwk_f ntwk ! k,
              r_magnitude_db = times20 (np_log10 (np_abs (s11_flatten ntwk ! k))),
              r_phase_deg = np_angle_deg (s11_flatten ntwk ! k),
              r_matching = classify_matching
                (times20 (np_log10 (np_abs (s11_flatten ntwk ! k))))\<rparr>"
  using analyze_body_ok [OF assms(1,2), of t i] assms(3) by auto

text \<open>
  Why the arrays must agree in length: with two frequencies and one matrix the nearest
  index can lie beyond the samples, and indexing raises.
\<close>

lemma analyze_body_short_array:
  "analyze_body 0 \<lparr>ntwk_f = [1, 2], ntwk_s = [diagonal (Val 1, Val 0)]\<rparr> 2 = Inl IndexError"
  by (simp add: analyze_body_def nearest_def np_argmin_def np_index_def s11_flatten_def)

text \<open>
  C6, as stated: for every collection the report has as many records as the collection
  has networks. A collection of a one-sample network followed by a network without
  samples refutes it: the first block is printed, then the argmin of the empty array
  raises, and the report has one record for two networks.
\<close>

theorem summarize_length_counterexample:
  "analyze_frequency_response [matched_network, empty_network] 2400000000 = ([sample_report 1], Some ValueError)
   \<and> length (fst (analyze_frequency_response [matched_network, empty_network] 2400000000))
       \<noteq> length [matched_network, empty_network]"
proof -
  have "analyze_body (Suc 0) empty_network 2400000000 = Inl ValueError"
    by (simp add: nearest_def analyze_body_def np_argmin_empty)
  then show ?thesis
    using analyze_body_example [of 0]
    by (simp add: analyze_frequency_response_def)
qed

text \<open>
  C6, amended. For every collection in which each network has at least one frequency
  sample and as many matrices as frequencies, and every target frequency, the analysis
  visits the networks in collection order and emits for each exactly one record: its
  position counted from 1, the frequency of the nearest sample, the magnitude in dB and
  the phase of S11 there, and the classification of that magnitude; no error occurs and
  the report is as long as the collection. When the network at position m has no
  samples and those before it are as above, the analysis ends with the error of C3 and
  the report consists of exactly the m records of the networks before it.
\<close>

theorem analyze_frequency_response_records:
  "((\<forall>n \<in> set networks. ntwk_f n \<noteq> [] \<and> length (ntwk_s n) = length (ntwk_f n)) \<longrightarrow>
      snd (analyze_frequency_response networks t) = None
      \<and> length (fst (analyze_frequency_response networks t)) = length networks
      \<and> (\<forall>i<length networks. \<exists>k<length (ntwk_f (networks ! i)).
            nearest (networks ! i) t
              = Inr (k, ntwk_f (networks ! i) ! k, s11_flatten (networks ! i) ! k)
            \<and> fst (analyze_frequency_response networks t) ! i
              = \<lparr>r_antenna = i + 1, r_freq = ntwk_f (networks ! i) ! k,
                 r_magnitude_db = times20 (np_log10 (np_abs (s11_flatten (networks ! i) ! k))),
                 r_phase_deg = np_angle_deg (s11_flatten (networks ! i) ! k),
                 r_matching = classify_matching
                   (times20 (np_log10 (np_abs (s11_flatten (networks ! i) ! k))))\<rparr>))
   \<and> (m < length networks \<and> ntwk_f (networks ! m) = []
        \<and> (\<forall>i<m. ntwk_f (networks ! i) \<noteq> []
              \<and> length (ntwk_s (networks ! i)) = length (ntwk_f (networks ! i))) \<longrightarrow>
      snd (analyze_frequency_response networks t) = Some ValueError
      \<and> length (fst (analyze_frequency_response networks t)) = m
      \<and> (\<forall>i<m. \<exists>k<length (ntwk_f (networks ! i)).
            nearest (networks ! i) t
              = Inr (k, ntwk_f (networks ! i) ! k, s11_flatten (networks ! i) ! k)
            \<and> fst (analyze_frequency_response networks t) ! i
              = \<lparr>r_antenna = i + 1, r_freq = ntwk_f (networks ! i) ! k,
                 r_magnitude_db = times20 (np_log10 (np_abs (s11_flatten (networks ! i) ! k))),
                 r_phase_deg = np_angle_deg (s11_flatten (networks ! i) ! k),
                 r_matching = classify_matching
                   (times20 (np_log10 (np_abs (s11_flatten (networks ! i) ! k))))\<rparr>))"
proof (intro conjI impI)
  assume wf: "\<forall>n \<in> set networks. ntwk_f n \<noteq> [] \<and> length (ntwk_s n) = length (ntwk_f n)"
  note c = analyze_loop_complete [OF wf, of 0 t]
  show "snd (analyze_frequency_response networks t) = None"
    using c by (simp add: analyze_frequency_response_def)
  show "length (fst (analyze_frequency_response networks t)) = length networks"
    using c by (simp add: analyze_frequency_response_def)
  show "\<forall>i<length networks. \<exists>k<length (ntwk_f (networks ! i)).
            nearest (networks ! i) t
              = Inr (k, ntwk_f (networks ! i) ! k, s11_flatten (networks ! i) ! k)
            \<and> fst (analyze_frequency_response networks t) ! i
              = \<lparr>r_antenna = i + 1, r_freq = ntwk_f (networks ! i) ! k,
                 r_magnitude_db = times20 (np_log10 (np_abs (s11_flatten (networks ! i) ! k))),
                 r_phase_deg = np_angle_deg (s11_flatten (networks ! i) ! k),
                 r_matching = classify_matching
                   (times20 (np_log10 (np_abs (s11_flatten (networks ! i) ! k))))\<rparr>"
  proof (intro allI impI)
    fix i assume i: "i < length networks"
    then have "networks ! i \<in> set networks" by simp
    with wf have w: "ntwk_f (networks ! i) \<noteq> []"
      "length (ntwk_s (networks ! i)) = length (ntwk_f (networks ! i))" by blast+
    have "analyze_body i (networks ! i) t = Inr (fst (analyze_frequency_response networks t) ! i)"
      using c i by (simp add: analyze_frequency_response_def)
    from analyze_body_record [OF w this]
    show "\<exists>k<length (ntwk_f (networks ! i)).
            nearest (networks ! i) t
              = Inr (k, ntwk_f (networks ! i) ! k, s11_flatten (networks ! i) ! k)
            \<and> fst (analyze_frequency_response networks t) ! i
              = \<lparr>r_antenna = i + 1, r_freq = ntwk_f (networks ! i) ! k,
                 r_magnitude_db = times20 (np_log10 (np_abs (s11_flatten (networks ! i) ! k))),
                 r_phase_deg = np_angle_deg (s11_flatten (networks ! i) ! k),
                 r_matching = classify_matching
                   (times20 (np_log10 (np_abs (s11_flatten (networks ! i) ! k))))\<rparr>" .
  qed
next
  assume h: "m < length networks \<and> ntwk_f (networks ! m) = []
        \<and> (\<forall>i<m. ntwk_f (networks ! i) \<noteq> []
              \<and> length (ntwk_s (networks ! i)) = length (ntwk_f (networks ! i)))"
  then have s: "snd (analyze_loop 0 networks t) = Some ValueError
       \<and> length (fst (analyze_loop 0 networks t)) = m
       \<and> (\<forall>i<m. analyze_body (0 + i) (networks ! i) t
                    = Inr (fst (analyze_loop 0 networks t) ! i))"
    by (intro analyze_loop_stops) blast+
  show "snd (analyze_frequency_response networks t) = Some ValueError"
    using s by (simp add: analyze_frequency_response_def)
  show "length (fst (analyze_frequency_response networks t)) = m"
    using s by (simp add: analyze_frequency_response_def)
  show "\<forall>i<m. \<exists>k<length (ntwk_f (networks ! i)).
            nearest (networks ! i) t
              = Inr (k, ntwk_f (networks ! i) ! k, s11_flatten (networks ! i) ! k)
            \<and> fst (analyze_frequency_response networks t) ! i
              = \<lparr>r_antenna = i + 1, r_freq = ntwk_f (networks ! i) ! k,
                 r_magnitude_db = times20 (np_log10 (np_abs (s11_flatten (networks ! i) ! k))),
                 r_phase_deg = np_angle_deg (s11_flatten (networks ! i) ! k),
                 r_matching = classify_matching
                   (times20 (np_log10 (np_abs (s11_flatten (networks ! i) ! k))))\<rparr>"
  proof (intro allI impI)
    fix i assume i: "i < m"
    with h have w: "ntwk_f (networks ! i) \<noteq> []"
      "length (ntwk_s (networks ! i)) = length (ntwk_f (networks ! i))" by blast+
    have "analyze_body i (networks ! i) t = Inr (fst (analyze_frequency_response networks t) ! i)"
      using s i by (simp add: analyze_frequency_response_def)
    from analyze_body_record [OF w this]
    show "\<exists>k<length (ntwk_f (networks ! i)).
            nearest (networks ! i) t
              = Inr (k, ntwk_f (networks ! i) ! k, s11_flatten (networks ! i) ! k)
            \<and> fst (analyze_frequency_response networks t) ! i
              = \<lparr>r_antenna = i + 1, r_freq = ntwk_f (networks ! i) ! k,
                 r_magnitude_db = times20 (np_log10 (np_abs (s11_flatten (networks ! i) ! k))),
                 r_phase_deg = np_angle_deg (s11_flatten (networks ! i) ! k),
                 r_matching = classify_matching
                   (times20 (np_log10 (np_abs (s11_flatten (networks ! i) ! k))))\<rparr>" .
  qed
qed

theorem analyze_frequency_response_records_witness:
  "ntwk_f matched_network \<noteq> []
   \<and> length (ntwk_s matched_network) = length (ntwk_f matched_network)
   \<and> ntwk_f tied_network \<noteq> []
   \<and> length (ntwk_s tied_network) = length (ntwk_f tied_network)
   \<and> analyze_frequency_response [matched_network, tied_network] 2400000000
       = ([sample_report 1,
           \<lparr>r_antenna = 2, r_freq = 5, r_magnitude_db = Fin 0, r_phase_deg = 0,
              r_matching = Poor\<rparr>], None)
   \<and> (1::nat) < length [matched_network, empty_network, matched_network]
   \<and> ntwk_f ([matched_network, empty_network, matched_network] ! 1) = []
   \<and> analyze_frequency_response [matched_network, empty_network, matched_network] 2400000000
       = ([sample_report 1], Some ValueError)"
proof -
  let ?ok = "[matched_network, tied_network]"
  let ?bad = "[matched_network, empty_network, matched_network]"
  have h0: "ntwk_f matched_network \<noteq> []
      \<and> length (ntwk_s matched_network) = length (ntwk_f matched_network)
      \<and> ntwk_f tied_network \<noteq> []
      \<and> length (ntwk_s tied_network) = length (ntwk_f tied_network)"
    by simp
  then have h1: "\<forall>n \<in> set ?ok. ntwk_f n \<noteq> [] \<and> length (ntwk_s n) = length (ntwk_f n)"
    by simp
  have h2: "(1::nat) < length ?bad \<and> ntwk_f (?bad ! 1) = []"
    by simp
  have h3: "\<forall>i<1. ntwk_f (?bad ! i) \<noteq> []
          \<and> length (ntwk_s (?bad ! i)) = length (ntwk_f (?bad ! i))"
    by simp
  have one: "to_complex (Val 1, Val 0) = 1" "np_abs (Val 1, Val 0) = 1"
    "np_angle_deg (Val 1, Val 0) = 0"
    by (simp_all add: to_complex_def complex_eq_iff np_abs_def cmod_def np_angle_deg_def
        np_arctan2_def)
  have tied: "analyze_body 1 tied_network 2400000000
      = Inr \<lparr>r_antenna = 2, r_freq = 5, r_magnitude_db = Fin 0, r_phase_deg = 0,
              r_matching = Poor\<rparr>"
    by (simp add: analyze_body_def nearest_def np_argmin_def np_index_def s11_flatten_def
        one np_log10_def classify_matching_def)
  from analyze_frequency_response_records [of ?ok 2400000000 0] h1
  have a: "snd (analyze_frequency_response ?ok 2400000000) = None"
    and b: "length (fst (analyze_frequency_response ?ok 2400000000)) = length ?ok"
    by blast+
  have c: "analyze_frequency_response ?ok 2400000000
       = ([sample_report 1,
           \<lparr>r_antenna = 2, r_freq = 5, r_magnitude_db = Fin 0, r_phase_deg = 0,
              r_matching = Poor\<rparr>], None)"
    using a b analyze_body_example [of 0] tied
    by (simp add: analyze_frequency_response_def)
  from analyze_frequency_response_records [of ?bad 2400000000 1] h2 h3
  have d: "snd (analyze_frequency_response ?bad 2400000000) = Some ValueError"
    and e: "length (fst (analyze_frequency_response ?bad 2400000000)) = 1"
    by blast+
  have f: "analyze_frequency_response ?bad 2400000000 = ([sample_report 1], Some ValueError)"
    using d e analyze_body_example [of 0]
    by (simp add: analyze_frequency_response_def nearest_def analyze_body_def np_argmin_empty)
  from h0 c h2 f show ?thesis by blast
qed

section \<open>Properties of the loader\<close>






section \<open>Properties of the traces\<close>

text \<open>A plotting loop that returns hands the networks back as it got them.\<close>

lemma plot_traces_networks:
  "plot_traces y_of j networks = Inr (networks', cs) \<Longrightarrow> networks' = networks"
  by (induction networks arbitrary: j networks' cs) (auto split: sum.splits prod.splits)

lemma plot_s_parameters_multi_networks:
  assumes "plot_s_parameters_multi networks = Inr (networks', fig)"
  shows "networks' = networks"
  using assms
  by (auto simp: plot_s_parameters_multi_def split: sum.splits prod.splits
      dest!: plot_traces_networks)

text \<open>With arrays of equal length every \<^verbatim>\<open>ax.plot\<close> call succeeds and draws one line.\<close>

lemma plot_traces_ok:
  assumes "\<forall>n \<in> set networks. length (y_of n) = length (ntwk_f n)"
  shows "plot_traces y_of j networks
     = Inr (networks,
            map (\<lambda>(i, n). \<lparr>color_index = i, antenna_label = i + 1,
                           xdata = freq_ghz n, ydata = y_of n\<rparr>) (enumerate j networks))"
  using assms
  by (induction networks arbitrary: j) (simp_all add: ax_plot_def freq_ghz_def)

lemma plot_s_parameters_multi_ok:
  assumes "\<forall>n \<in> set networks. length (ntwk_s n) = length (ntwk_f n)"
  shows "plot_s_parameters_multi networks
     = Inr (networks,
          \<lparr>ax1 = map (\<lambda>(i, n). \<lparr>color_index = i, antenna_label = i + 1,
                           xdata = freq_ghz n, ydata = s11_mag_db n\<rparr>) (enumerate 0 networks),
            ax2 = map (\<lambda>(i, n). \<lparr>color_index = i, antenna_label = i + 1,
                           xdata = freq_ghz n, ydata = s11_phase n\<rparr>) (enumerate 0 networks)\<rparr>)"
proof -
  have a: "\<forall>n \<in> set networks. length (s11_mag_db n) = length (ntwk_f n)"
    using assms by (simp add: s11_mag_db_def s11_flatten_def)
  have b: "\<forall>n \<in> set networks. length (s11_phase n) = length (ntwk_f n)"
    using assms by (simp add: s11_phase_def s11_flatten_def)
  show ?thesis
    by (simp add: plot_s_parameters_multi_def plot_traces_ok [OF a] plot_traces_ok [OF b])
qed

text \<open>The numbers of the samples used below.\<close>

lemma sample_values:
  "np_abs (Val (- 1), Val 0) = 1" "np_angle_deg (Val (- 1), Val 0) = 180"
  "np_abs (Val 10, Val 0) = 10" "np_angle_deg (Val 10, Val 0) = 0"
  "np_abs (Val 1, Val 0) = 1" "np_angle_deg (Val 1, Val 0) = 0"
  "np_log10 1 = Fin 0" "np_log10 10 = Fin 1"
  by (simp_all add: to_complex_def np_abs_def cmod_def np_log10_def np_angle_deg_def
      np_arctan2_def)

text \<open>
  C8, as stated: the trace exists for every valid port pair. The script's traversal takes
  no port arguments and reads \<^verbatim>\<open>ntwk.s11\<close> only. For the network with S11 = 0.1 and
  S21 = 1 the one magnitude trace it computes is the point -20 dB, which is not the
  0 dB of the (2,1) entry: there is no trace of the port pair (2,1).
\<close>

theorem trace_port_pair_counterexample:
  "plot_s_parameters_multi [through_network]
     = Inr ([through_network],
            \<lparr>ax1 = [\<lparr>color_index = 0, antenna_label = 1, xdata = [12 / 5],
                     ydata = [Fin (- 20)]\<rparr>],
             ax2 = [\<lparr>color_index = 0, antenna_label = 1, xdata = [12 / 5],
                     ydata = [0]\<rparr>]\<rparr>)
   \<and> times20 (np_log10 (np_abs (fst (snd (ntwk_s through_network ! 0))))) = Fin 0
   \<and> [Fin (- 20)]
       \<noteq> [times20 (np_log10 (np_abs (fst (snd (ntwk_s through_network ! 0)))))]"
  by (simp add: plot_s_parameters_multi_def ax_plot_def freq_ghz_def s11_mag_db_def
      s11_phase_def s11_flatten_def matched_sample sample_values)

text \<open>
  C8, amended. For every list of networks that have as many matrices as frequencies, the
  trace of S11, the only port pair the script traverses, has exactly one point per
  frequency sample of each network, in the order of the frequency list: the k-th point carries the
  k-th frequency (in GHz) with the magnitude and the phase of the k-th S11 sample. The
  traversal is a projection of the networks: it returns them as they were, the second
  loop (for the phase) reads the same frequencies as the first, and whenever a call
  returns, repeating it on the networks it left yields the identical figure.
\<close>

theorem trace_one_point_per_sample:
  "((\<forall>n \<in> set networks. length (ntwk_s n) = length (ntwk_f n)) \<longrightarrow>
     (\<exists>fig. plot_s_parameters_multi networks = Inr (networks, fig)
        \<and> length (ax1 fig) = length networks \<and> length (ax2 fig) = length networks
        \<and> (\<forall>i<length networks.
              xdata (ax1 fig ! i) = map (\<lambda>x. x / 1000000000) (ntwk_f (networks ! i))
              \<and> xdata (ax2 fig ! i) = xdata (ax1 fig ! i)
              \<and> length (ydata (ax1 fig ! i)) = length (ntwk_f (networks ! i))
              \<and> length (ydata (ax2 fig ! i)) = length (ntwk_f (networks ! i))
              \<and> (\<forall>k<length (ntwk_f (networks ! i)).
                    ydata (ax1 fig ! i) ! k
                      = times20 (np_log10 (np_abs (s11_flatten (networks ! i) ! k)))
                    \<and> ydata (ax2 fig ! i) ! k = np_angle_deg (s11_flatten (networks ! i) ! k)))))
   \<and> (plot_s_parameters_multi networks = Inr (networks', fig') \<longrightarrow>
        networks' = networks
        \<and> plot_s_parameters_multi networks' = Inr (networks', fig'))"
proof (intro conjI impI)
  assume wf: "\<forall>n \<in> set networks. length (ntwk_s n) = length (ntwk_f n)"
  let ?fig = "\<lparr>ax1 = map (\<lambda>(i, n). \<lparr>color_index = i, antenna_label = i + 1,
                           xdata = freq_ghz n, ydata = s11_mag_db n\<rparr>) (enumerate 0 networks),
            ax2 = map (\<lambda>(i, n). \<lparr>color_index = i, antenna_label = i + 1,
                           xdata = freq_ghz n, ydata = s11_phase n\<rparr>) (enumerate 0 networks)\<rparr>"
  have r: "plot_s_parameters_multi networks = Inr (networks, ?fig)"
    by (rule plot_s_parameters_multi_ok [OF wf])
  have l: "length (ax1 ?fig) = length networks \<and> length (ax2 ?fig) = length networks"
    by simp
  have p: "\<forall>i<length networks.
              xdata (ax1 ?fig ! i) = map (\<lambda>x. x / 1000000000) (ntwk_f (networks ! i))
              \<and> xdata (ax2 ?fig ! i) = xdata (ax1 ?fig ! i)
              \<and> length (ydata (ax1 ?fig ! i)) = length (ntwk_f (networks ! i))
              \<and> length (ydata (ax2 ?fig ! i)) = length (ntwk_f (networks ! i))
              \<and> (\<forall>k<length (ntwk_f (networks ! i)).
                    ydata (ax1 ?fig ! i) ! k
                      = times20 (np_log10 (np_abs (s11_flatten (networks ! i) ! k)))
                    \<and> ydata (ax2 ?fig ! i) ! k = np_angle_deg (s11_flatten (networks ! i) ! k))"
  proof (intro allI impI)
    fix i assume i: "i < length networks"
    then have "networks ! i \<in> set networks" by simp
    with wf have e: "length (ntwk_s (networks ! i)) = length (ntwk_f (networks ! i))" by blast
    then have e': "length (s11_flatten (networks ! i)) = length (ntwk_f (networks ! i))"
      by (simp add: s11_flatten_def)
    show "xdata (ax1 ?fig ! i) = map (\<lambda>x. x / 1000000000) (ntwk_f (networks ! i))
              \<and> xdata (ax2 ?fig ! i) = xdata (ax1 ?fig ! i)
              \<and> length (ydata (ax1 ?fig ! i)) = length (ntwk_f (networks ! i))
              \<and> length (ydata (ax2 ?fig ! i)) = length (ntwk_f (networks ! i))
              \<and> (\<forall>k<length (ntwk_f (networks ! i)).
                    ydata (ax1 ?fig ! i) ! k
                      = times20 (np_log10 (np_abs (s11_flatten (networks ! i) ! k)))
                    \<and> ydata (ax2 ?fig ! i) ! k = np_angle_deg (s11_flatten (networks ! i) ! k))"
      using i e' by (simp add: nth_enumerate_eq freq_ghz_def s11_mag_db_def s11_phase_def)
  qed
  from r l p show "\<exists>fig. plot_s_parameters_multi networks = Inr (networks, fig)
        \<and> length (ax1 fig) = length networks \<and> length (ax2 fig) = length networks
        \<and> (\<forall>i<length networks.
              xdata (ax1 fig ! i) = map (\<lambda>x. x / 1000000000) (ntwk_f (networks ! i))
              \<and> xdata (ax2 fig ! i) = xdata (ax1 fig ! i)
              \<and> length (ydata (ax1 fig ! i)) = length (ntwk_f (networks ! i))
              \<and> length (ydata (ax2 fig ! i)) = length (ntwk_f (networks ! i))
              \<and> (\<forall>k<length (ntwk_f (networks ! i)).
                    ydata (ax1 fig ! i) ! k
                      = times20 (np_log10 (np_abs (s11_flatten (networks ! i) ! k)))
                    \<and> ydata (ax2 fig ! i) ! k = np_angle_deg (s11_flatten (networks ! i) ! k)))"
    by blast
next
  assume r: "plot_s_parameters_multi networks = Inr (networks', fig')"
  then show "networks' = networks" by (rule plot_s_parameters_multi_networks)
  with r show "plot_s_parameters_multi networks' = Inr (networks', fig')" by simp
qed

theorem trace_one_point_per_sample_witness:
  "length (ntwk_s sweep_network) = length (ntwk_f sweep_network)
   \<and> length (ntwk_s matched_network) = length (ntwk_f matched_network)
   \<and> plot_s_parameters_multi [sweep_network, matched_network]
       = Inr ([sweep_network, matched_network],
              \<lparr>ax1 = [\<lparr>color_index = 0, antenna_label = 1, xdata = [1, 2, 3],
                       ydata = [Fin (- 20), Fin 0, Fin 20]\<rparr>,
                      \<lparr>color_index = 1, antenna_label = 2, xdata = [12 / 5],
                       ydata = [Fin (- 20)]\<rparr>],
               ax2 = [\<lparr>color_index = 0, antenna_label = 1, xdata = [1, 2, 3],
                       ydata = [0, 180, 0]\<rparr>,
                      \<lparr>color_index = 1, antenna_label = 2, xdata = [12 / 5],
                       ydata = [0]\<rparr>]\<rparr>)"
proof -
  let ?nets = "[sweep_network, matched_network]"
  have h0: "length (ntwk_s sweep_network) = length (ntwk_f sweep_network)
      \<and> length (ntwk_s matched_network) = length (ntwk_f matched_network)"
    by simp
  then have h: "\<forall>n \<in> set ?nets. length (ntwk_s n) = length (ntwk_f n)" by simp
  from trace_one_point_per_sample [of ?nets] h obtain fig where
    fig: "plot_s_parameters_multi ?nets = Inr (?nets, fig)"
    by blast
  from trace_one_point_per_sample [of ?nets ?nets fig] fig
  have again: "plot_s_parameters_multi ?nets = Inr (?nets, fig)" by blast
  have "plot_s_parameters_multi ?nets
       = Inr (?nets,
              \<lparr>ax1 = [\<lparr>color_index = 0, antenna_label = 1, xdata = [1, 2, 3],
                       ydata = [Fin (- 20), Fin 0, Fin 20]\<rparr>,
                      \<lparr>color_index = 1, antenna_label = 2, xdata = [12 / 5],
                       ydata = [Fin (- 20)]\<rparr>],
               ax2 = [\<lparr>color_index = 0, antenna_label = 1, xdata = [1, 2, 3],
                       ydata = [0, 180, 0]\<rparr>,
                      \<lparr>color_index = 1, antenna_label = 2, xdata = [12 / 5],
                       ydata = [0]\<rparr>]\<rparr>)"
    by (simp add: plot_s_parameters_multi_def ax_plot_def freq_ghz_def s11_mag_db_def
        s11_phase_def s11_flatten_def matched_sample sample_values)
  with h0 again show ?thesis by blast
qed

section \<open>Properties of file discovery\<close>

text \<open>
  The sort key fails, always with \<^verbatim>\<open>ValueError\<close>, on a stem without a decimal digit:
  what the filter keeps is empty or holds superscript digits only. One failing key fails
  the computation of the keys.
\<close>

lemma antenna_number_no_decimal:
  assumes "\<forall>c \<in> set (path_stem x). \<not> isdecimal c"
  shows "antenna_number x = Inl ValueError"
proof -
  have "\<forall>c \<in> set (filter isdigit (path_stem x)). \<not> isdecimal c"
    using assms by simp
  then have "filter isdigit (path_stem x) = []
      \<or> (\<exists>c \<in> set (filter isdigit (path_stem x)). \<not> isdecimal c)"
    by (cases "filter isdigit (path_stem x)") auto
  then show ?thesis by (simp add: antenna_number_def py_int_def)
qed

lemma antenna_number_decimal:
  assumes "\<exists>c \<in> set (path_stem x). isdecimal c"
    and "\<forall>c \<in> set (path_stem x). isdigit c \<longrightarrow> isdecimal c"
  shows "\<exists>k. antenna_number x = Inr k"
proof -
  have "filter isdigit (path_stem x) \<noteq> []"
    using assms(1) by (auto simp: filter_empty_conv isdigit_def)
  moreover have "\<forall>c \<in> set (filter isdigit (path_stem x)). isdecimal c"
    using assms(2) by simp
  ultimately show ?thesis by (simp add: antenna_number_def py_int_def)
qed

lemma antenna_number_error: "antenna_number x = Inl e \<Longrightarrow> e = ValueError"
  by (auto simp: antenna_number_def py_int_def split: if_splits)

lemma compute_keys_error: "compute_keys xs = Inl e \<Longrightarrow> e = ValueError"
  by (induction xs) (auto split: sum.splits dest: antenna_number_error)

lemma compute_keys_fails:
  assumes "x \<in> set xs" and "antenna_number x = Inl e"
  shows "compute_keys xs = Inl ValueError"
proof -
  have "\<exists>e'. compute_keys xs = Inl e'"
    using assms by (induction xs) (auto split: sum.splits)
  then show ?thesis using compute_keys_error by blast
qed

text \<open>The keys are compared as numbers: 10 comes after 2.\<close>

lemma sort_files_numeric_order:
  "sort_files [''./antenna2.s2p'', ''./antenna10.s2p'', ''./antenna1.s2p'']
     = Inr [''./antenna1.s2p'', ''./antenna2.s2p'', ''./antenna10.s2p'']"
  by (simp add: sort_files_def antenna_number_def path_stem_def path_name_def Let_def
      isdigit_def isdecimal_def py_int_def digit_value_def)

text \<open>
  A superscript digit passes the filter and is refused by \<^verbatim>\<open>int\<close>: the name
  \<^verbatim>\<open>antenna\<close>, U+00B2, \<^verbatim>\<open>1.s2p\<close> has no key although its stem holds the digit 1.
\<close>

lemma antenna_number_superscript:
  "antenna_number (''antenna'' @ [CHR 0xB2] @ ''1.s2p'') = Inl ValueError"
  by (simp add: antenna_number_def path_stem_def path_name_def Let_def
      isdigit_def isdecimal_def py_int_def)

text \<open>
  C9. When some matched file has a stem without a decimal digit, the sort of line 16
  raises \<^verbatim>\<open>ValueError\<close>: the loader returns the error whatever the files contain (no
  file is parsed, nothing is printed), and so do \<^verbatim>\<open>visualize_all_antennas\<close> and the
  script.
\<close>

theorem sort_key_without_digits_aborts:
  "(\<exists>x \<in> set s2p_files. \<forall>c \<in> set (path_stem x). \<not> isdecimal c) \<longrightarrow>
     sort_files s2p_files = Inl ValueError
     \<and> load_antenna_files rf s2p_files = Inl ValueError
     \<and> visualize_all_antennas rf s2p_files save_plots = Inl ValueError
     \<and> main rf s2p_files = Inl ValueError"
proof
  assume "\<exists>x \<in> set s2p_files. \<forall>c \<in> set (path_stem x). \<not> isdecimal c"
  then obtain x where x: "x \<in> set s2p_files" "\<forall>c \<in> set (path_stem x). \<not> isdecimal c"
    by blast
  from compute_keys_fails [OF x(1) antenna_number_no_decimal [OF x(2)]]
  have s: "sort_files s2p_files = Inl ValueError" by (simp add: sort_files_def)
  then have l: "load_antenna_files rf s2p_files = Inl ValueError"
    by (simp add: load_antenna_files_def)
  then have v: "visualize_all_antennas rf s2p_files save_plots = Inl ValueError"
    by (simp add: visualize_all_antennas_def)
  have "visualize_all_antennas rf s2p_files True = Inl ValueError"
    using l by (simp add: visualize_all_antennas_def)
  then have m: "main rf s2p_files = Inl ValueError" by (simp add: main_def)
  from s l v m show "sort_files s2p_files = Inl ValueError
     \<and> load_antenna_files rf s2p_files = Inl ValueError
     \<and> visualize_all_antennas rf s2p_files save_plots = Inl ValueError
     \<and> main rf s2p_files = Inl ValueError" by blast
qed

theorem sort_key_without_digits_aborts_witness:
  "(\<exists>x \<in> set [''./antenna1.s2p'', ''./antenna_ref.s2p''].
       \<forall>c \<in> set (path_stem x). \<not> isdecimal c)
   \<and> path_stem ''./antenna_ref.s2p'' = ''antenna_ref''
   \<and> every_file_loads ''./antenna1.s2p'' = Inr matched_network
   \<and> load_antenna_files every_file_loads [''./antenna1.s2p'', ''./antenna_ref.s2p'']
       = Inl ValueError
   \<and> main every_file_loads [''./antenna1.s2p'', ''./antenna_ref.s2p''] = Inl ValueError"
proof -
  have st: "path_stem ''./antenna_ref.s2p'' = ''antenna_ref''"
    by (simp add: path_stem_def path_name_def Let_def)
  have "\<forall>c \<in> set (path_stem ''./antenna_ref.s2p''). \<not> isdecimal c"
    unfolding st by (simp add: isdecimal_def)
  then have h: "\<exists>x \<in> set [''./antenna1.s2p'', ''./antenna_ref.s2p''].
       \<forall>c \<in> set (path_stem x). \<not> isdecimal c"
    by simp
  from sort_key_without_digits_aborts
    [of "[''./antenna1.s2p'', ''./antenna_ref.s2p'']" every_file_loads True] h
  have "load_antenna_files every_file_loads [''./antenna1.s2p'', ''./antenna_ref.s2p'']
       = Inl ValueError
   \<and> main every_file_loads [''./antenna1.s2p'', ''./antenna_ref.s2p''] = Inl ValueError"
    by blast
  with h st show ?thesis by simp
qed

text \<open>
  C10. When the loader returns no network, \<^verbatim>\<open>visualize_all_antennas\<close> returns \<^verbatim>\<open>None\<close>,
  and the script, which unpacks the result into two names, fails with \<^verbatim>\<open>TypeError\<close>.
  With at least one network it does not return \<^verbatim>\<open>None\<close>.
\<close>

theorem visualize_returns_None:
  "(load_antenna_files rf s2p_files = Inr ([], out) \<longrightarrow>
      visualize_all_antennas rf s2p_files save_plots = Inr None
      \<and> main rf s2p_files = Inl TypeError)
   \<and> (load_antenna_files rf s2p_files = Inr (networks, out) \<and> networks \<noteq> [] \<longrightarrow>
      visualize_all_antennas rf s2p_files save_plots \<noteq> Inr None)"
proof (intro conjI impI)
  assume l: "load_antenna_files rf s2p_files = Inr ([], out)"
  then show "visualize_all_antennas rf s2p_files save_plots = Inr None"
    by (simp add: visualize_all_antennas_def)
  have "visualize_all_antennas rf s2p_files True = Inr None"
    using l by (simp add: visualize_all_antennas_def)
  then show "main rf s2p_files = Inl TypeError" by (simp add: main_def)
next
  assume "load_antenna_files rf s2p_files = Inr (networks, out) \<and> networks \<noteq> []"
  then show "visualize_all_antennas rf s2p_files save_plots \<noteq> Inr None"
    by (simp add: visualize_all_antennas_def split: sum.splits prod.splits)
qed

theorem visualize_returns_None_witness:
  "load_antenna_files (\<lambda>p. Inl ''unreadable'') [''./antenna1.s2p'']
     = Inr ([], [ErrorLoading ''antenna1.s2p'' ''unreadable''])
   \<and> visualize_all_antennas (\<lambda>p. Inl ''unreadable'') [''./antenna1.s2p''] True = Inr None
   \<and> main (\<lambda>p. Inl ''unreadable'') [''./antenna1.s2p''] = Inl TypeError
   \<and> main (\<lambda>p. Inl ''unreadable'') [] = Inl TypeError
   \<and> load_antenna_files every_file_loads [''./antenna1.s2p'']
       = Inr ([matched_network], [Loaded ''antenna1.s2p''])
   \<and> [matched_network] \<noteq> []
   \<and> visualize_all_antennas every_file_loads [''./antenna1.s2p''] True \<noteq> Inr None"
proof -
  let ?bad = "\<lambda>p :: string. (Inl ''unreadable'' :: string + network)"
  have h1: "load_antenna_files ?bad [''./antenna1.s2p'']
     = Inr ([], [ErrorLoading ''antenna1.s2p'' ''unreadable''])"
    by (simp add: load_antenna_files_def sort_files_def antenna_number_def path_stem_def
        path_name_def Let_def isdigit_def isdecimal_def py_int_def digit_value_def)
  have h2: "load_antenna_files ?bad [] = Inr ([], [])"
    by (simp add: load_antenna_files_def sort_files_def)
  have h3: "load_antenna_files every_file_loads [''./antenna1.s2p'']
       = Inr ([matched_network], [Loaded ''antenna1.s2p''])"
    by (simp add: load_antenna_files_def sort_files_def antenna_number_def path_stem_def
        path_name_def Let_def isdigit_def isdecimal_def py_int_def digit_value_def)
  have h4: "[matched_network] \<noteq> []" by simp
  from visualize_returns_None [of ?bad "[''./antenna1.s2p'']"
      "[ErrorLoading ''antenna1.s2p'' ''unreadable'']" True] h1
  have a: "visualize_all_antennas ?bad [''./antenna1.s2p''] True = Inr None
     \<and> main ?bad [''./antenna1.s2p''] = Inl TypeError" by blast
  from visualize_returns_None [of ?bad "[]" "[]" True] h2
  have b: "main ?bad [] = Inl TypeError" by blast
  from visualize_returns_None [of "every_file_loads" "[''./antenna1.s2p'']" "[Loaded ''antenna1.s2p'']" True
      "[matched_network]"] h3 h4
  have c: "visualize_all_antennas every_file_loads [''./antenna1.s2p''] True \<noteq> Inr None" by blast
  from h1 a b h3 h4 c show ?thesis by blast
qed

end
